theory Spec2Isabelle
  imports Complex_Main "HOL-Library.Sublist"
begin

section \<open>Data model of \<open>backend/mentor.py\<close>\<close>

text \<open>
  The two ORM classes \<open>User\<close> and \<open>Transaction\<close> become records of the rows as the
  handlers read them back from the database; a field \<open>f\<close> of \<open>User\<close> is \<open>u_f\<close>, of
  \<open>Transaction\<close> \<open>t_f\<close>, of \<open>UserCreate\<close> \<open>uc_f\<close> and of \<open>TransactionCreate\<close> \<open>tc_f\<close>.
  Python's \<open>int\<close> is \<open>int\<close>, \<open>str\<close> is \<open>string\<close>.

  Python's \<open>float\<close> is the type parameter \<open>'a\<close>. The handlers add such values, starting
  from \<open>0\<close>, test nothing else about them, and print one with the format \<open>.2f\<close>; the
  database driver stores every float but a NaN, which it stores as \<open>NULL\<close>. So the model
  asks for a type with \<open>0\<close> and \<open>+\<close>, assumes no law of addition, and takes the NaN test
  and the formatter as parameters (\<open>float_ops\<close>). A \<open>Float\<close> column read back is
  \<open>None\<close> (for \<open>NULL\<close>) or a float.

  The response models \<open>UserOut\<close> and \<open>TransactionOut\<close> have the fields of the rows
  (\<open>orm_mode\<close>); a handler that returns a row is modelled as returning the record.
\<close>

record 'a float_ops =
  fl_isnan :: "'a \<Rightarrow> bool"
  fl_format_2f :: "'a \<Rightarrow> string"

record 'a User =
  u_id :: int
  u_email :: string
  u_name :: string
  u_monthly_income :: "'a option"
  u_financial_goal :: string
  u_mood :: string

record 'a Transaction =
  t_id :: int
  t_user_id :: int
  t_amount :: "'a option"
  t_category :: string
  t_date :: string

record 'a UserCreate =
  uc_email :: string
  uc_name :: string
  uc_monthly_income :: 'a
  uc_financial_goal :: "string option"
  uc_mood :: "string option"

record 'a TransactionCreate =
  tc_user_id :: int
  tc_amount :: 'a
  tc_category :: string
  tc_date :: string

text \<open>
  The database session as the handler bodies use it: the two tables, each a list of rows
  in insertion order. No handler deletes or reorders rows, and a query without
  \<open>order_by\<close> on SQLite scans a table in rowid order, which is the insertion order.
  Whether a request reaches a handler body at all is decided by the import of the module
  (\<open>import_module\<close>, \<open>served\<close>).
\<close>

record 'a db =
  users :: "'a User list"
  transactions :: "'a Transaction list"

definition empty_db :: "'a db" where
  "empty_db = \<lparr>users = [], transactions = []\<rparr>"

text \<open>
  The exceptions that leave the module or a handler: the two \<open>HTTPException\<close>s the
  handlers raise, \<open>InvalidRequestError\<close> of the ORM, \<open>OverflowError\<close> of the database
  driver and \<open>TypeError\<close> of the interpreter.
\<close>

datatype py_exception =
    HTTPException (status_code: nat) (detail: string)
  | InvalidRequestError
  | OverflowError
  | TypeError

section \<open>Importing the module\<close>

text \<open>
  The module body runs when the module is imported. A class statement with the declarative
  base as its parent is mapped at once, and mapping a class that names no table, neither by
  \<open>__tablename__\<close> nor by \<open>__table__\<close>, raises \<open>InvalidRequestError\<close>. A class is given
  here by the names that its body assigns, in order. Both classes of the module assign
  \<open>_tablename_\<close>, with one underscore on each side.
\<close>

definition declarative_class :: "string list \<Rightarrow> py_exception + unit" where
  "declarative_class namespace =
     (if ''__tablename__'' \<in> set namespace \<or> ''__table__'' \<in> set namespace
      then Inr () else Inl InvalidRequestError)"

definition User_class :: "string list" where
  "User_class =
     [''_tablename_'', ''id'', ''email'', ''name'', ''monthly_income'', ''financial_goal'', ''mood'']"

definition Transaction_class :: "string list" where
  "Transaction_class =
     [''_tablename_'', ''id'', ''user_id'', ''amount'', ''category'', ''date'']"

definition import_module :: "py_exception + unit" where
  "import_module =
     (case declarative_class User_class of
        Inl e \<Rightarrow> Inl e
      | Inr _ \<Rightarrow> declarative_class Transaction_class)"

section \<open>Database and interpreter primitives\<close>

text \<open>
  An \<open>Integer\<close> primary key that is not supplied: SQLite assigns one more than the
  largest key in the table, and 1 in an empty table.
\<close>

definition new_id :: "int list \<Rightarrow> int" where
  "new_id ids = 1 + fold max ids 0"

text \<open>
  A Python \<open>int\<close> bound as a query parameter must fit SQLite's signed 64-bit integer,
  or the driver raises \<open>OverflowError\<close>. A \<open>float\<close> bound as a parameter is stored as it
  is, except that a NaN is stored as \<open>NULL\<close>.
\<close>

definition sqlite_integer :: "int \<Rightarrow> bool" where
  "sqlite_integer i \<longleftrightarrow> - (2 ^ 63) \<le> i \<and> i < 2 ^ 63"

definition sqlite_real :: "'a float_ops \<Rightarrow> 'a \<Rightarrow> 'a option" where
  "sqlite_real fl x = (if fl_isnan fl x then None else Some x)"

text \<open>
  \<open>a + x\<close> where \<open>x\<close> was read from a \<open>Float\<close> column: adding \<open>None\<close> raises
  \<open>TypeError\<close>. \<open>sum(xs)\<close> is these additions from left to right, starting from \<open>0\<close>.
\<close>

fun py_add :: "'a::plus \<Rightarrow> 'a option \<Rightarrow> py_exception + 'a" where
  "py_add a None = Inl TypeError"
| "py_add a (Some x) = Inr (a + x)"

fun sum_from :: "'a::plus \<Rightarrow> 'a option list \<Rightarrow> py_exception + 'a" where
  "sum_from acc [] = Inr acc"
| "sum_from acc (x # xs) =
     (case py_add acc x of Inl e \<Rightarrow> Inl e | Inr acc' \<Rightarrow> sum_from acc' xs)"

definition py_sum :: "'a::{zero,plus} option list \<Rightarrow> py_exception + 'a" where
  "py_sum xs = sum_from 0 xs"

text \<open>
  A \<open>dict\<close> keeps its keys in insertion order, so it is an association list with
  distinct keys: \<open>d.get(k, default)\<close> and \<open>d[k] = v\<close>. Assigning to a key that is present
  replaces the value in place, a new key goes to the end.
\<close>

fun dict_get :: "('k \<times> 'v) list \<Rightarrow> 'k \<Rightarrow> 'v \<Rightarrow> 'v" where
  "dict_get [] k dflt = dflt"
| "dict_get ((k', v') # d) k dflt = (if k' = k then v' else dict_get d k dflt)"

fun dict_set :: "('k \<times> 'v) list \<Rightarrow> 'k \<Rightarrow> 'v \<Rightarrow> ('k \<times> 'v) list" where
  "dict_set [] k v = [(k, v)]"
| "dict_set ((k', v') # d) k v = (if k' = k then (k', v) # d else (k', v') # dict_set d k v)"

section \<open>The handlers\<close>

text \<open>
  A handler takes its arguments and the session and returns its response, or the
  exception that leaves it (\<open>Inl\<close>), together with the session afterwards.
  \<open>db.query(User).filter(User.id == user_id).first()\<close> binds \<open>user_id\<close> and is \<open>find\<close>
  on the table; \<open>db.query(Transaction).filter(Transaction.user_id == user_id).all()\<close>
  binds \<open>user_id\<close> and is \<open>filter\<close> on the table.
\<close>

type_synonym ('r, 'a) handler = "'a db \<Rightarrow> (py_exception + 'r) \<times> 'a db"

definition user_by_id :: "int \<Rightarrow> 'a db \<Rightarrow> py_exception + 'a User option" where
  "user_by_id user_id s =
     (if sqlite_integer user_id then Inr (find (\<lambda>u. u_id u = user_id) (users s))
      else Inl OverflowError)"

definition user_by_email :: "string \<Rightarrow> 'a db \<Rightarrow> 'a User option" where
  "user_by_email email s = find (\<lambda>u. u_email u = email) (users s)"

definition transactions_of :: "int \<Rightarrow> 'a db \<Rightarrow> py_exception + 'a Transaction list" where
  "transactions_of user_id s =
     (if sqlite_integer user_id then Inr (filter (\<lambda>t. t_user_id t = user_id) (transactions s))
      else Inl OverflowError)"

text \<open>
  \<open>create_user\<close>. An attribute that is \<open>None\<close> is left out of the \<open>INSERT\<close>, so the
  column default applies to an absent goal or mood.
\<close>

definition create_user :: "'a float_ops \<Rightarrow> 'a UserCreate \<Rightarrow> ('a User, 'a) handler" where
  "create_user fl user s =
     (case user_by_email (uc_email user) s of
        Some db_user \<Rightarrow> (Inl (HTTPException 400 ''Email already registered''), s)
      | None \<Rightarrow>
          let db_user = \<lparr>u_id = new_id (map u_id (users s)),
                         u_email = uc_email user,
                         u_name = uc_name user,
                         u_monthly_income = sqlite_real fl (uc_monthly_income user),
                         u_financial_goal = (case uc_financial_goal user of None \<Rightarrow> [] | Some g \<Rightarrow> g),
                         u_mood = (case uc_mood user of None \<Rightarrow> ''neutral'' | Some m \<Rightarrow> m)\<rparr>
          in (Inr db_user, s\<lparr>users := users s @ [db_user]\<rparr>))"

definition get_user :: "int \<Rightarrow> ('a User, 'a) handler" where
  "get_user user_id s =
     (case user_by_id user_id s of
        Inl e \<Rightarrow> (Inl e, s)
      | Inr None \<Rightarrow> (Inl (HTTPException 404 ''User not found''), s)
      | Inr (Some db_user) \<Rightarrow> (Inr db_user, s))"

definition add_transaction :: "'a float_ops \<Rightarrow> 'a TransactionCreate \<Rightarrow> ('a Transaction, 'a) handler" where
  "add_transaction fl tx s =
     (case user_by_id (tc_user_id tx) s of
        Inl e \<Rightarrow> (Inl e, s)
      | Inr None \<Rightarrow> (Inl (HTTPException 404 ''User not found''), s)
      | Inr (Some db_user) \<Rightarrow>
          let db_tx = \<lparr>t_id = new_id (map t_id (transactions s)),
                       t_user_id = tc_user_id tx,
                       t_amount = sqlite_real fl (tc_amount tx),
                       t_category = tc_category tx,
                       t_date = tc_date tx\<rparr>
          in (Inr db_tx, s\<lparr>transactions := transactions s @ [db_tx]\<rparr>))"

definition get_transactions :: "int \<Rightarrow> ('a Transaction list, 'a) handler" where
  "get_transactions user_id s =
     (case transactions_of user_id s of
        Inl e \<Rightarrow> (Inl e, s)
      | Inr items \<Rightarrow> (Inr items, s))"

text \<open>The loop of \<open>user_summary\<close> over the transactions, on the dict \<open>categories\<close>.\<close>

fun accumulate ::
  "'a::{zero,plus} Transaction list \<Rightarrow> (string \<times> 'a) list \<Rightarrow> py_exception + (string \<times> 'a) list" where
  "accumulate [] categories = Inr categories"
| "accumulate (t # ts) categories =
     (case py_add (dict_get categories (t_category t) 0) (t_amount t) of
        Inl e \<Rightarrow> Inl e
      | Inr v \<Rightarrow> accumulate ts (dict_set categories (t_category t) v))"

record 'a Summary =
  s_user :: string
  s_financial_goal :: string
  s_total_spent :: 'a
  s_category_breakdown :: "(string \<times> 'a) list"

definition user_summary :: "int \<Rightarrow> ('a::{zero,plus} Summary, 'a) handler" where
  "user_summary user_id s =
     (case user_by_id user_id s of
        Inl e \<Rightarrow> (Inl e, s)
      | Inr None \<Rightarrow> (Inl (HTTPException 404 ''User not found''), s)
      | Inr (Some db_user) \<Rightarrow>
          (case transactions_of user_id s of
             Inl e \<Rightarrow> (Inl e, s)
           | Inr txs \<Rightarrow>
               (case py_sum (map t_amount txs) of
                  Inl e \<Rightarrow> (Inl e, s)
                | Inr total_spent \<Rightarrow>
                    (case accumulate txs [] of
                       Inl e \<Rightarrow> (Inl e, s)
                     | Inr categories \<Rightarrow>
                         (Inr \<lparr>s_user = u_name db_user,
                                s_financial_goal = u_financial_goal db_user,
                                s_total_spent = total_spent,
                                s_category_breakdown = categories\<rparr>, s)))))"

text \<open>The response of \<open>update_mood\<close>: \<open>{"user_id": user_id, "mood": mood}\<close>.\<close>

record MoodOut =
  m_user_id :: int
  m_mood :: string

text \<open>
  \<open>user.mood = mood; db.commit()\<close>: the session writes the changed attribute back with
  \<open>UPDATE users SET mood = ? WHERE id = ?\<close>, the primary key of the loaded row.
\<close>

definition update_mood :: "int \<Rightarrow> string \<Rightarrow> (MoodOut, 'a) handler" where
  "update_mood user_id mood s =
     (case user_by_id user_id s of
        Inl e \<Rightarrow> (Inl e, s)
      | Inr None \<Rightarrow> (Inl (HTTPException 404 ''User not found''), s)
      | Inr (Some user) \<Rightarrow>
          (Inr \<lparr>m_user_id = user_id, m_mood = mood\<rparr>,
           s\<lparr>users := map (\<lambda>u. if u_id u = u_id user then u\<lparr>u_mood := mood\<rparr> else u) (users s)\<rparr>))"

record Advice =
  a_summary :: string
  a_advice :: string

definition mentor_advice :: "'a float_ops \<Rightarrow> int \<Rightarrow> (Advice, 'a::{zero,plus}) handler" where
  "mentor_advice fl user_id s =
     (case user_by_id user_id s of
        Inl e \<Rightarrow> (Inl e, s)
      | Inr None \<Rightarrow> (Inl (HTTPException 404 ''User not found''), s)
      | Inr (Some user) \<Rightarrow>
          (case transactions_of user_id s of
             Inl e \<Rightarrow> (Inl e, s)
           | Inr txs \<Rightarrow>
               (case py_sum (map t_amount txs) of
                  Inl e \<Rightarrow> (Inl e, s)
                | Inr total_spent \<Rightarrow>
                    let summary = u_name user @ '' has spent '' @ fl_format_2f fl total_spent
                                    @ '' this month.'';
                        response = ''Keep up the good work! Consider investing extra funds if you're under budget.'';
                        response = (if u_mood user = ''stressed''
                                    then response @ '' Take a deep breath before making new purchases.''
                                    else response)
                    in (Inr \<lparr>a_summary = summary, a_advice = response\<rparr>, s))))"

text \<open>
  What a request gets from the program: a handler runs only in a process that has
  imported the module. When the import raises, no route exists; the outcome of the
  request is the exception of the import and the database is not touched.
\<close>

definition served :: "('r, 'a) handler \<Rightarrow> ('r, 'a) handler" where
  "served h s = (case import_module of Inl e \<Rightarrow> (Inl e, s) | Inr _ \<Rightarrow> h s)"

subsection \<open>Fixed-point formatting with two decimals\<close>

text \<open>
  \<open>format(x, ".2f")\<close> for a number given exactly: the sign when \<open>x\<close> is negative (also
  when it rounds to zero), then the absolute value rounded to hundredths, ties to even.
  \<open>exact\<close> are the float operations for exact rationals, none of which is a NaN.
\<close>

definition digit_char :: "nat \<Rightarrow> char" where
  "digit_char d = char_of (48 + d)"

fun digits :: "nat \<Rightarrow> string" where
  "digits n = (if n < 10 then [digit_char n] else digits (n div 10) @ [digit_char (n mod 10)])"

declare digits.simps [simp del]

definition round_half_even :: "rat \<Rightarrow> int" where
  "round_half_even x =
     (let f = \<lfloor>x\<rfloor>; r = x - of_int f
      in if r < 1 / 2 then f else if 1 / 2 < r then f + 1 else if even f then f else f + 1)"

definition format_2f :: "rat \<Rightarrow> string" where
  "format_2f x =
     (let n = nat (round_half_even (\<bar>x\<bar> * 100))
      in (if x < 0 then ''-'' else []) @ digits (n div 100) @ ''.''
           @ [digit_char (n mod 100 div 10), digit_char (n mod 10)])"

definition exact :: "rat float_ops" where
  "exact = \<lparr>fl_isnan = (\<lambda>x. False), fl_format_2f = format_2f\<rparr>"

section \<open>The handlers as a system\<close>

text \<open>One constructor per route; \<open>handle\<close> is the session after the handler has run.\<close>

datatype 'a request =
    CreateUser "'a UserCreate"
  | GetUser int
  | AddTransaction "'a TransactionCreate"
  | GetTransactions int
  | UserSummary int
  | UpdateMood int string
  | MentorAdvice int

fun handle :: "'a float_ops \<Rightarrow> 'a::{zero,plus} request \<Rightarrow> 'a db \<Rightarrow> 'a db" where
  "handle fl (CreateUser user) s = snd (create_user fl user s)"
| "handle fl (GetUser user_id) s = snd (get_user user_id s)"
| "handle fl (AddTransaction tx) s = snd (add_transaction fl tx s)"
| "handle fl (GetTransactions user_id) s = snd (get_transactions user_id s)"
| "handle fl (UserSummary user_id) s = snd (user_summary user_id s)"
| "handle fl (UpdateMood user_id mood) s = snd (update_mood user_id mood s)"
| "handle fl (MentorAdvice user_id) s = snd (mentor_advice fl user_id s)"

fun run :: "'a float_ops \<Rightarrow> 'a::{zero,plus} request list \<Rightarrow> 'a db \<Rightarrow> 'a db" where
  "run fl [] s = s"
| "run fl (r # rs) s = run fl rs (handle fl r s)"

section \<open>Example data\<close>

text \<open>
  Two users whose transactions alternate in the table, and some requests. The amounts are
  exact rationals.
\<close>

definition example_db :: "rat db" where
  "example_db =
     \<lparr>users = [\<lparr>u_id = 1, u_email = ''ann@example.org'', u_name = ''Ann'',
                 u_monthly_income = Some 3000, u_financial_goal = ''save'', u_mood = ''neutral''\<rparr>,
               \<lparr>u_id = 2, u_email = ''cy@example.org'', u_name = ''Cy'',
                 u_monthly_income = Some 100, u_financial_goal = [], u_mood = ''neutral''\<rparr>],
      transactions =
        [\<lparr>t_id = 1, t_user_id = 1, t_amount = Some 50, t_category = ''food'',
          t_date = ''2024-01-01''\<rparr>,
         \<lparr>t_id = 2, t_user_id = 2, t_amount = Some 9, t_category = ''misc'',
          t_date = ''2024-01-01''\<rparr>,
         \<lparr>t_id = 3, t_user_id = 1, t_amount = Some (- 20), t_category = ''food'',
          t_date = ''2024-01-02''\<rparr>,
         \<lparr>t_id = 4, t_user_id = 1, t_amount = Some 30, t_category = ''rent'',
          t_date = ''2024-01-03''\<rparr>,
         \<lparr>t_id = 5, t_user_id = 2, t_amount = Some (33 / 10), t_category = ''food'',
          t_date = ''2024-01-03''\<rparr>]\<rparr>"

definition ann_again :: "rat UserCreate" where
  "ann_again = \<lparr>uc_email = ''ann@example.org'', uc_name = ''Ann B'', uc_monthly_income = 10,
                 uc_financial_goal = None, uc_mood = None\<rparr>"

definition bob :: "rat UserCreate" where
  "bob = \<lparr>uc_email = ''bob@example.org'', uc_name = ''Bob'', uc_monthly_income = 2500,
           uc_financial_goal = Some ''travel'', uc_mood = None\<rparr>"

definition bob_twin :: "rat UserCreate" where
  "bob_twin = \<lparr>uc_email = ''bob@example.org'', uc_name = ''Robert'', uc_monthly_income = 1,
                uc_financial_goal = None, uc_mood = Some ''stressed''\<rparr>"

definition coffee :: "rat TransactionCreate" where
  "coffee = \<lparr>tc_user_id = 1, tc_amount = 7 / 2, tc_category = ''food'', tc_date = ''2024-01-04''\<rparr>"

definition stray :: "rat TransactionCreate" where
  "stray = \<lparr>tc_user_id = 9, tc_amount = 5, tc_category = ''misc'', tc_date = ''today''\<rparr>"

section \<open>The import raises\<close>

lemma import_module_raises: "import_module = Inl InvalidRequestError"
  by (simp add: import_module_def declarative_class_def User_class_def)

lemma served_raises: "served h s = (Inl InvalidRequestError, s)"
  by (simp add: served_def import_module_raises)

section \<open>Facts about the handler bodies\<close>

lemma user_by_id_out_of_range: "\<not> sqlite_integer user_id \<Longrightarrow> user_by_id user_id s = Inl OverflowError"
  by (simp add: user_by_id_def)

lemma get_user_out_of_range:
  "\<not> sqlite_integer user_id \<Longrightarrow> get_user user_id s = (Inl OverflowError, s)"
  by (simp add: get_user_def user_by_id_def)

lemma get_transactions_out_of_range:
  "\<not> sqlite_integer user_id \<Longrightarrow> get_transactions user_id s = (Inl OverflowError, s)"
  by (simp add: get_transactions_def transactions_of_def)

lemma add_transaction_nan:
  "user_by_id (tc_user_id tx) s = Inr (Some u) \<Longrightarrow> fl_isnan fl (tc_amount tx) \<Longrightarrow>
     \<exists>t. fst (add_transaction fl tx s) = Inr t \<and> t_amount t = None"
  by (simp add: add_transaction_def Let_def sqlite_real_def)

lemma py_sum_null: "None \<in> set xs \<Longrightarrow> py_sum xs = Inl TypeError"
proof -
  have "None \<in> set xs \<Longrightarrow> sum_from a xs = Inl TypeError" for a :: 'a
  proof (induction xs arbitrary: a)
    case Nil
    then show ?case by simp
  next
    case (Cons x xs)
    then show ?case by (cases x) auto
  qed
  then show "None \<in> set xs \<Longrightarrow> py_sum xs = Inl TypeError"
    by (simp add: py_sum_def)
qed

lemma py_sum_numbers: "py_sum (map Some xs) = Inr (foldl (+) 0 xs)"
proof -
  have "sum_from a (map Some xs) = Inr (foldl (+) a xs)" for a :: 'a
    by (induction xs arbitrary: a) simp_all
  then show ?thesis by (simp add: py_sum_def)
qed

section \<open>The formatter for exact numbers\<close>

lemma format_2f_examples:
  "format_2f (123 / 10) = ''12.30''"
  "format_2f 0 = ''0.00''"
  "format_2f (- 1 / 1000) = ''-0.00''"
  "format_2f (1 / 8) = ''0.12''"
  "format_2f (3 / 8) = ''0.38''"
  by code_simp+

lemma round_half_even_near: "\<bar>of_int (round_half_even x) - x\<bar> \<le> 1 / 2"
proof -
  have "of_int \<lfloor>x\<rfloor> \<le> x" "x < of_int \<lfloor>x\<rfloor> + 1"
    by linarith+
  then show ?thesis
    unfolding round_half_even_def Let_def by (simp split: if_splits)
qed

section \<open>Effect of a handler on the two tables\<close>

lemma handle_transactions_prefix: "prefix (transactions s) (transactions (handle fl r s))"
proof (cases r)
  case (CreateUser user)
  then show ?thesis
    by (simp add: create_user_def Let_def split: option.splits)
next
  case (GetUser i)
  then show ?thesis
    by (simp add: get_user_def split: sum.splits option.splits)
next
  case (AddTransaction tx)
  then show ?thesis
    by (simp add: add_transaction_def Let_def split: sum.splits option.splits)
next
  case (GetTransactions i)
  then show ?thesis
    by (simp add: get_transactions_def split: sum.splits)
next
  case (UserSummary i)
  then show ?thesis
    by (simp add: user_summary_def split: sum.splits option.splits)
next
  case (UpdateMood i m)
  then show ?thesis
    by (simp add: update_mood_def split: sum.splits option.splits)
next
  case (MentorAdvice i)
  then show ?thesis
    by (simp add: mentor_advice_def Let_def split: sum.splits option.splits)
qed

lemma run_transactions_prefix: "prefix (transactions s) (transactions (run fl reqs s))"
proof (induction reqs arbitrary: s)
  case Nil
  show ?case by simp
next
  case (Cons r reqs)
  have "prefix (transactions s) (transactions (handle fl r s))"
    by (rule handle_transactions_prefix)
  also have "prefix \<dots> (transactions (run fl reqs (handle fl r s)))"
    by (rule Cons.IH)
  finally show ?case by simp
qed

lemma handle_users_frame:
  "length (users s) \<le> length (users (handle fl r s)) \<and>
   (\<forall>k < length (users s).
      (users (handle fl r s) ! k)\<lparr>u_mood := u_mood (users s ! k)\<rparr> = users s ! k)"
proof (cases r)
  case (CreateUser user)
  then show ?thesis
    by (simp add: create_user_def Let_def nth_append split: option.splits)
next
  case (GetUser i)
  then show ?thesis
    by (simp add: get_user_def split: sum.splits option.splits)
next
  case (AddTransaction tx)
  then show ?thesis
    by (simp add: add_transaction_def Let_def split: sum.splits option.splits)
next
  case (GetTransactions i)
  then show ?thesis
    by (simp add: get_transactions_def split: sum.splits)
next
  case (UserSummary i)
  then show ?thesis
    by (simp add: user_summary_def split: sum.splits option.splits)
next
  case (UpdateMood i m)
  then show ?thesis
    by (simp add: update_mood_def split: sum.splits option.splits)
next
  case (MentorAdvice i)
  then show ?thesis
    by (simp add: mentor_advice_def Let_def split: sum.splits option.splits)
qed

section \<open>User summary\<close>

text \<open>
  Claim C1. For an existing user, the summary should report as \<open>total_spent\<close> the sum of
  the amounts of that user's transactions and as \<open>category_breakdown\<close> the sum per
  category, accumulated in list order: \<open>60\<close> and \<open>{"food": 30, "rent": 30}\<close> for the
  amounts \<open>[50, -20, 30]\<close> in the categories \<open>["food", "food", "rent"]\<close>. User 1 of the
  example has exactly these transactions, with another user's rows in between. The
  program answers the request with the exception of its import and no summary; the body
  of the handler, which the program never reaches, computes what the claim says.
\<close>

theorem user_summary_not_served:
  "served (user_summary 1) example_db = (Inl InvalidRequestError, example_db) \<and>
   user_summary 1 example_db
     = (Inr \<lparr>s_user = ''Ann'', s_financial_goal = ''save'', s_total_spent = 60,
              s_category_breakdown = [(''food'', 30), (''rent'', 30)]\<rparr>, example_db)"
proof
  show "served (user_summary 1) example_db = (Inl InvalidRequestError, example_db)"
    by (rule served_raises)
next
  have u: "user_by_id 1 example_db = Inr (Some (hd (users example_db)))"
    by (simp add: user_by_id_def sqlite_integer_def example_db_def)
  have t: "transactions_of 1 example_db
      = Inr [transactions example_db ! 0, transactions example_db ! 2, transactions example_db ! 3]"
    by (simp add: transactions_of_def sqlite_integer_def example_db_def)
  show "user_summary 1 example_db
     = (Inr \<lparr>s_user = ''Ann'', s_financial_goal = ''save'', s_total_spent = 60,
              s_category_breakdown = [(''food'', 30), (''rent'', 30)]\<rparr>, example_db)"
    unfolding user_summary_def u t by (simp add: py_sum_def example_db_def)
qed

section \<open>Mentor advice\<close>

text \<open>
  Claim C2. For an existing user, the advice should carry the summary
  "<name> has spent <total> this month.", with the total of the user's amounts printed
  with two decimals, and the base text, extended by the one extra sentence exactly when
  the mood is the string "stressed". User 2 of the example has mood "neutral" and a total
  of 12.3. The program answers the request with the exception of its import and no
  advice; the body of the handler, which the program never reaches, gives
  "Cy has spent 12.30 this month." with the base text, the extra sentence once the mood
  is "stressed", and the base text alone for the mood "Stressed".
\<close>

theorem mentor_advice_not_served:
  "served (mentor_advice exact 2) example_db = (Inl InvalidRequestError, example_db) \<and>
   mentor_advice exact 2 example_db
     = (Inr \<lparr>a_summary = ''Cy has spent 12.30 this month.'',
              a_advice =
                ''Keep up the good work! Consider investing extra funds if you're under budget.''\<rparr>,
        example_db) \<and>
   fst (mentor_advice exact 2 (snd (update_mood 2 ''stressed'' example_db)))
     = Inr \<lparr>a_summary = ''Cy has spent 12.30 this month.'',
             a_advice =
               ''Keep up the good work! Consider investing extra funds if you're under budget. Take a deep breath before making new purchases.''\<rparr> \<and>
   fst (mentor_advice exact 2 (snd (update_mood 2 ''Stressed'' example_db)))
     = Inr \<lparr>a_summary = ''Cy has spent 12.30 this month.'',
             a_advice =
               ''Keep up the good work! Consider investing extra funds if you're under budget.''\<rparr>"
proof (intro conjI)
  show "served (mentor_advice exact 2) example_db = (Inl InvalidRequestError, example_db)"
    by (rule served_raises)
next
  have f: "fl_format_2f exact (0 + 9 + 33 / 10) = ''12.30''"
    using format_2f_examples(1) by (simp add: exact_def)
  have t: "transactions_of 2 s = Inr [transactions example_db ! 1, transactions example_db ! 4]"
    if "transactions s = transactions example_db" for s :: "rat db"
    using that by (simp add: transactions_of_def sqlite_integer_def example_db_def)
  have a: "fst (mentor_advice exact 2 s)
      = Inr \<lparr>a_summary = n @ '' has spent 12.30 this month.'',
              a_advice =
                ''Keep up the good work! Consider investing extra funds if you're under budget.''
                @ (if m = ''stressed''
                   then '' Take a deep breath before making new purchases.'' else [])\<rparr> \<and>
       snd (mentor_advice exact 2 s) = s"
    if "transactions s = transactions example_db"
      and "user_by_id 2 s = Inr (Some u)" and "u_name u = n" and "u_mood u = m"
    for s :: "rat db" and u n m
    unfolding mentor_advice_def t [OF that(1)] that(2)
    using that(3,4) f by (simp add: py_sum_def example_db_def Let_def)
  have u0: "user_by_id 2 example_db = Inr (Some (users example_db ! 1))"
    by (simp add: user_by_id_def sqlite_integer_def example_db_def)
  have u1: "user_by_id 2 (snd (update_mood 2 m example_db))
      = Inr (Some ((users example_db ! 1)\<lparr>u_mood := m\<rparr>))"
    and t1: "transactions (snd (update_mood 2 m example_db)) = transactions example_db" for m
    by (simp_all add: update_mood_def user_by_id_def sqlite_integer_def example_db_def)
  from a [OF refl u0, of "''Cy''" "''neutral''"]
  show "mentor_advice exact 2 example_db
     = (Inr \<lparr>a_summary = ''Cy has spent 12.30 this month.'',
              a_advice =
                ''Keep up the good work! Consider investing extra funds if you're under budget.''\<rparr>,
        example_db)"
    by (simp add: example_db_def prod_eq_iff)
  from a [OF t1 u1, of "''stressed''" "''Cy''" "''stressed''"]
  show "fst (mentor_advice exact 2 (snd (update_mood 2 ''stressed'' example_db)))
     = Inr \<lparr>a_summary = ''Cy has spent 12.30 this month.'',
             a_advice =
               ''Keep up the good work! Consider investing extra funds if you're under budget. Take a deep breath before making new purchases.''\<rparr>"
    by (simp add: example_db_def)
  from a [OF t1 u1, of "''Stressed''" "''Cy''" "''Stressed''"]
  show "fst (mentor_advice exact 2 (snd (update_mood 2 ''Stressed'' example_db)))
     = Inr \<lparr>a_summary = ''Cy has spent 12.30 this month.'',
             a_advice =
               ''Keep up the good work! Consider investing extra funds if you're under budget.''\<rparr>"
    by (simp add: example_db_def)
qed

section \<open>Registering users\<close>

text \<open>
  Claim C3. Registering a user should fail with the conflict error (status 400) exactly
  when the email is already registered, and otherwise succeed and return the new user in
  full under a fresh identifier; of two registrations with the same email the first
  succeeds and the second fails with the conflict error. The program answers a
  registration with a new email, on the empty database or any other, and the second one
  with the same email, with the exception of its import: no user is created and no
  conflict is reported. The body of the handler, which the program never reaches, behaves
  as the claim says.
\<close>

theorem create_user_not_served:
  "served (create_user exact bob) empty_db = (Inl InvalidRequestError, empty_db) \<and>
   served (create_user exact bob_twin) (snd (served (create_user exact bob) empty_db))
     = (Inl InvalidRequestError, empty_db) \<and>
   served (create_user exact bob) example_db = (Inl InvalidRequestError, example_db) \<and>
   create_user exact bob example_db
     = (Inr \<lparr>u_id = 3, u_email = ''bob@example.org'', u_name = ''Bob'',
              u_monthly_income = Some 2500, u_financial_goal = ''travel'', u_mood = ''neutral''\<rparr>,
        example_db\<lparr>users := users example_db @
          [\<lparr>u_id = 3, u_email = ''bob@example.org'', u_name = ''Bob'',
            u_monthly_income = Some 2500, u_financial_goal = ''travel'', u_mood = ''neutral''\<rparr>]\<rparr>) \<and>
   create_user exact bob_twin (snd (create_user exact bob example_db))
     = (Inl (HTTPException 400 ''Email already registered''), snd (create_user exact bob example_db)) \<and>
   create_user exact ann_again example_db
     = (Inl (HTTPException 400 ''Email already registered''), example_db)"
proof (intro conjI)
  show "served (create_user exact bob) empty_db = (Inl InvalidRequestError, empty_db)"
    by (rule served_raises)
  show "served (create_user exact bob_twin) (snd (served (create_user exact bob) empty_db))
     = (Inl InvalidRequestError, empty_db)"
    by (simp add: served_raises)
  show "served (create_user exact bob) example_db = (Inl InvalidRequestError, example_db)"
    by (rule served_raises)
  show b: "create_user exact bob example_db
     = (Inr \<lparr>u_id = 3, u_email = ''bob@example.org'', u_name = ''Bob'',
              u_monthly_income = Some 2500, u_financial_goal = ''travel'', u_mood = ''neutral''\<rparr>,
        example_db\<lparr>users := users example_db @
          [\<lparr>u_id = 3, u_email = ''bob@example.org'', u_name = ''Bob'',
            u_monthly_income = Some 2500, u_financial_goal = ''travel'', u_mood = ''neutral''\<rparr>]\<rparr>)"
    by (simp add: create_user_def user_by_email_def example_db_def bob_def new_id_def Let_def
          sqlite_real_def exact_def)
  show "create_user exact bob_twin (snd (create_user exact bob example_db))
     = (Inl (HTTPException 400 ''Email already registered''), snd (create_user exact bob example_db))"
    unfolding b by (simp add: create_user_def user_by_email_def example_db_def bob_twin_def)
  show "create_user exact ann_again example_db
     = (Inl (HTTPException 400 ''Email already registered''), example_db)"
    by (simp add: create_user_def user_by_email_def example_db_def ann_again_def)
qed

section \<open>Recording transactions\<close>

text \<open>
  Claim C4. Recording a transaction for a \<open>user_id\<close> that no user has should fail with
  the not-found error (status 404) and add no row; for an existing user it should succeed
  and return the new transaction in full under a fresh identifier. The program answers
  both requests with the exception of its import: no not-found error and no transaction.
  The body of the handler, which the program never reaches, behaves as the claim says on
  the two requests; for a \<open>user_id\<close> beyond 64 bits it lets the \<open>OverflowError\<close> of the
  driver through where the claim says not found.
\<close>

theorem add_transaction_not_served:
  "served (add_transaction exact stray) empty_db = (Inl InvalidRequestError, empty_db) \<and>
   served (add_transaction exact stray) example_db = (Inl InvalidRequestError, example_db) \<and>
   served (add_transaction exact coffee) example_db = (Inl InvalidRequestError, example_db) \<and>
   add_transaction exact stray example_db
     = (Inl (HTTPException 404 ''User not found''), example_db) \<and>
   add_transaction exact coffee example_db
     = (Inr \<lparr>t_id = 6, t_user_id = 1, t_amount = Some (7 / 2), t_category = ''food'',
              t_date = ''2024-01-04''\<rparr>,
        example_db\<lparr>transactions := transactions example_db @
          [\<lparr>t_id = 6, t_user_id = 1, t_amount = Some (7 / 2), t_category = ''food'',
            t_date = ''2024-01-04''\<rparr>]\<rparr>) \<and>
   add_transaction exact (stray\<lparr>tc_user_id := 2 ^ 63\<rparr>) example_db
     = (Inl OverflowError, example_db)"
proof (intro conjI)
  show "served (add_transaction exact stray) empty_db = (Inl InvalidRequestError, empty_db)"
    by (rule served_raises)
  show "served (add_transaction exact stray) example_db = (Inl InvalidRequestError, example_db)"
    by (rule served_raises)
  show "served (add_transaction exact coffee) example_db = (Inl InvalidRequestError, example_db)"
    by (rule served_raises)
  show "add_transaction exact stray example_db
     = (Inl (HTTPException 404 ''User not found''), example_db)"
    by (simp add: add_transaction_def user_by_id_def sqlite_integer_def example_db_def stray_def)
  show "add_transaction exact coffee example_db
     = (Inr \<lparr>t_id = 6, t_user_id = 1, t_amount = Some (7 / 2), t_category = ''food'',
              t_date = ''2024-01-04''\<rparr>,
        example_db\<lparr>transactions := transactions example_db @
          [\<lparr>t_id = 6, t_user_id = 1, t_amount = Some (7 / 2), t_category = ''food'',
            t_date = ''2024-01-04''\<rparr>]\<rparr>)"
    by (simp add: add_transaction_def user_by_id_def sqlite_integer_def example_db_def coffee_def
          new_id_def Let_def sqlite_real_def exact_def)
  show "add_transaction exact (stray\<lparr>tc_user_id := 2 ^ 63\<rparr>) example_db
     = (Inl OverflowError, example_db)"
    by (simp add: add_transaction_def user_by_id_def sqlite_integer_def)
qed

section \<open>Listing transactions\<close>

text \<open>
  Claim C5. Listing the transactions of any identifier should return, in order of
  creation, the transactions with that \<open>user_id\<close>, and an empty list, not an error, for
  an identifier that no user has. The program answers the request for the unregistered
  identifier 9 with the exception of its import, which is an error and not an empty
  list. The body of the handler, which the program never reaches, returns the empty list
  for 9 and the two rows of user 2 in table order; for the identifier \<open>2^63\<close>, which no
  user has, it lets the \<open>OverflowError\<close> of the driver through.
\<close>

theorem get_transactions_not_served:
  "served (get_transactions 9) empty_db = (Inl InvalidRequestError, empty_db) \<and>
   served (get_transactions 9) example_db = (Inl InvalidRequestError, example_db) \<and>
   get_transactions 9 example_db = (Inr [], example_db) \<and>
   get_transactions 2 example_db
     = (Inr [\<lparr>t_id = 2, t_user_id = 2, t_amount = Some 9, t_category = ''misc'',
               t_date = ''2024-01-01''\<rparr>,
              \<lparr>t_id = 5, t_user_id = 2, t_amount = Some (33 / 10), t_category = ''food'',
               t_date = ''2024-01-03''\<rparr>], example_db) \<and>
   get_transactions (2 ^ 63) example_db = (Inl OverflowError, example_db)"
proof (intro conjI)
  show "served (get_transactions 9) empty_db = (Inl InvalidRequestError, empty_db)"
    by (rule served_raises)
  show "served (get_transactions 9) example_db = (Inl InvalidRequestError, example_db)"
    by (rule served_raises)
  show "get_transactions 9 example_db = (Inr [], example_db)"
    by (simp add: get_transactions_def transactions_of_def sqlite_integer_def example_db_def)
  show "get_transactions 2 example_db
     = (Inr [\<lparr>t_id = 2, t_user_id = 2, t_amount = Some 9, t_category = ''misc'',
               t_date = ''2024-01-01''\<rparr>,
              \<lparr>t_id = 5, t_user_id = 2, t_amount = Some (33 / 10), t_category = ''food'',
               t_date = ''2024-01-03''\<rparr>], example_db)"
    by (simp add: get_transactions_def transactions_of_def sqlite_integer_def example_db_def)
  show "get_transactions (2 ^ 63) example_db = (Inl OverflowError, example_db)"
    by (simp add: get_transactions_out_of_range sqlite_integer_def)
qed

section \<open>Fetching a user\<close>

text \<open>
  Claim C6. Fetching a user should return the user with the given identifier when there
  is one and fail with the not-found error (status 404) for every identifier that no user
  has. The program answers the request for user 1, who exists, and for 7, whom no user
  has, with the exception of its import: neither the user nor a not-found error. The body
  of the handler, which the program never reaches, returns user 1 and the not-found error
  for 7; for the identifier \<open>2^63\<close>, which no user has, it lets the \<open>OverflowError\<close> of
  the driver through.
\<close>

theorem get_user_not_served:
  "served (get_user 7) empty_db = (Inl InvalidRequestError, empty_db) \<and>
   served (get_user 1) example_db = (Inl InvalidRequestError, example_db) \<and>
   served (get_user 7) example_db = (Inl InvalidRequestError, example_db) \<and>
   get_user 1 example_db
     = (Inr \<lparr>u_id = 1, u_email = ''ann@example.org'', u_name = ''Ann'',
              u_monthly_income = Some 3000, u_financial_goal = ''save'', u_mood = ''neutral''\<rparr>,
        example_db) \<and>
   get_user 7 example_db = (Inl (HTTPException 404 ''User not found''), example_db) \<and>
   get_user (2 ^ 63) example_db = (Inl OverflowError, example_db)"
proof (intro conjI)
  show "served (get_user 7) empty_db = (Inl InvalidRequestError, empty_db)"
    by (rule served_raises)
  show "served (get_user 1) example_db = (Inl InvalidRequestError, example_db)"
    by (rule served_raises)
  show "served (get_user 7) example_db = (Inl InvalidRequestError, example_db)"
    by (rule served_raises)
  show "get_user 1 example_db
     = (Inr \<lparr>u_id = 1, u_email = ''ann@example.org'', u_name = ''Ann'',
              u_monthly_income = Some 3000, u_financial_goal = ''save'', u_mood = ''neutral''\<rparr>,
        example_db)"
    by (simp add: get_user_def user_by_id_def sqlite_integer_def example_db_def)
  show "get_user 7 example_db = (Inl (HTTPException 404 ''User not found''), example_db)"
    by (simp add: get_user_def user_by_id_def sqlite_integer_def example_db_def)
  show "get_user (2 ^ 63) example_db = (Inl OverflowError, example_db)"
    by (simp add: get_user_out_of_range sqlite_integer_def)
qed

section \<open>Reads are idempotent\<close>

text \<open>
  Claim C7. \<open>get_user\<close> and \<open>get_transactions\<close> leave the session as it was, so
  repeating either of them, any number of times and in any interleaving of the two,
  returns the same result.
\<close>

theorem reads_idempotent:
  "snd (get_user user_id s) = s \<and>
   snd (get_transactions user_id s) = s \<and>
   get_user user_id (snd (get_user user_id s)) = get_user user_id s \<and>
   get_transactions user_id (snd (get_transactions user_id s)) = get_transactions user_id s \<and>
   get_user user_id (snd (get_transactions other_id s)) = get_user user_id s \<and>
   get_transactions user_id (snd (get_user other_id s)) = get_transactions user_id s \<and>
   ((\<lambda>s. snd (get_user user_id s)) ^^ n) s = s \<and>
   ((\<lambda>s. snd (get_transactions user_id s)) ^^ n) s = s"
proof -
  have u: "snd (get_user i s) = s" for i and s :: "'a db"
    by (simp add: get_user_def split: sum.splits option.splits)
  have t: "snd (get_transactions i s) = s" for i and s :: "'a db"
    by (simp add: get_transactions_def split: sum.splits)
  have idn: "((\<lambda>s. s) ^^ n) s = s"
    by (induction n) simp_all
  show ?thesis by (simp add: u t idn)
qed

section \<open>Users change only through the mood update\<close>

text \<open>
  Claim C8. Users should change only through the mood update and never be deleted, and
  for an existing user the mood update should overwrite the mood of that user alone and
  return \<open>{user_id, mood}\<close> as given. The program answers the mood update for user 2,
  who exists, with the exception of its import: the mood is not overwritten and nothing
  is echoed. The body of the handler, which the program never reaches, echoes its inputs
  and changes the mood of user 2 and nothing else. (That no handler body removes a user
  or changes another field is \<open>handle_users_frame\<close>.)
\<close>

theorem update_mood_not_served:
  "served (update_mood 2 ''stressed'') example_db = (Inl InvalidRequestError, example_db) \<and>
   update_mood 2 ''stressed'' example_db
     = (Inr \<lparr>m_user_id = 2, m_mood = ''stressed''\<rparr>,
        example_db\<lparr>users :=
          [\<lparr>u_id = 1, u_email = ''ann@example.org'', u_name = ''Ann'',
            u_monthly_income = Some 3000, u_financial_goal = ''save'', u_mood = ''neutral''\<rparr>,
           \<lparr>u_id = 2, u_email = ''cy@example.org'', u_name = ''Cy'',
            u_monthly_income = Some 100, u_financial_goal = [], u_mood = ''stressed''\<rparr>]\<rparr>)"
proof
  show "served (update_mood 2 ''stressed'') example_db = (Inl InvalidRequestError, example_db)"
    by (rule served_raises)
  show "update_mood 2 ''stressed'' example_db
     = (Inr \<lparr>m_user_id = 2, m_mood = ''stressed''\<rparr>,
        example_db\<lparr>users :=
          [\<lparr>u_id = 1, u_email = ''ann@example.org'', u_name = ''Ann'',
            u_monthly_income = Some 3000, u_financial_goal = ''save'', u_mood = ''neutral''\<rparr>,
           \<lparr>u_id = 2, u_email = ''cy@example.org'', u_name = ''Cy'',
            u_monthly_income = Some 100, u_financial_goal = [], u_mood = ''stressed''\<rparr>]\<rparr>)"
    by (simp add: update_mood_def user_by_id_def sqlite_integer_def example_db_def)
qed

section \<open>Transactions are immutable\<close>

text \<open>
  Claim C9. No request updates or deletes a transaction: after any request, and after any
  sequence of requests, the transaction table is the table before followed by the rows
  added since, so every earlier transaction is still there, unchanged and in its place.
\<close>

theorem transactions_immutable:
  "(\<exists>new. transactions (handle fmt r s) = transactions s @ new) \<and>
   (\<exists>new. transactions (run fmt reqs s) = transactions s @ new)"
proof
  from handle_transactions_prefix [of s fmt r]
  show "\<exists>new. transactions (handle fmt r s) = transactions s @ new"
    by (simp add: prefix_def)
next
  from run_transactions_prefix [of s fmt reqs]
  show "\<exists>new. transactions (run fmt reqs s) = transactions s @ new"
    by (simp add: prefix_def)
qed

section \<open>A recorded transaction shows up in the listing\<close>


end
